theory Spec2Isabelle
  imports
    Complex_Main
    "HOL-Library.Multiset"
    "HOL-Library.AList"
    "HOL-Library.Char_ord"
    "HOL-Library.List_Lexorder"
    "HOL-Library.Product_Lexorder"
begin

section \<open>Data model of \<^verbatim>\<open>complexity.py\<close>\<close>

text \<open>
  \<^verbatim>\<open>AtomType = Tuple[str, int, int]\<close> is (symbol, total degree, non-H degree);
  \<^verbatim>\<open>Atom = Tuple[int, AtomType]\<close> is (atom index, atom type);
  \<^verbatim>\<open>AtomDict = Dict[Atom, List[Atom]]\<close> is an insertion-ordered dictionary, kept as an
  association list in insertion order and read with \<^const>\<open>map_of\<close>.
  An atom path is a tuple of two or three atom types; tuples of both lengths live in one
  Python list and are compared lexicographically by \<^verbatim>\<open>sorted\<close>, so a path is a list of
  atom types under the lexicographic order.
\<close>

type_synonym AtomType = "string \<times> int \<times> int"
type_synonym Atom = "nat \<times> AtomType"
type_synonym AtomDict = "(Atom \<times> Atom list) list"
type_synonym AtomPath = "AtomType list"

text \<open>
  Exceptions. \<^verbatim>\<open>except Exception\<close> catches every subclass of \<^verbatim>\<open>Exception\<close> and lets
  the remaining \<^verbatim>\<open>BaseException\<close>s (\<^verbatim>\<open>KeyboardInterrupt\<close>, \<^verbatim>\<open>SystemExit\<close>) through.
\<close>

datatype py_exc =
    KeyError
  | IndexError
  | ToolkitError string
  | BaseExceptionOnly string

primrec is_Exception :: "py_exc \<Rightarrow> bool" where
  "is_Exception KeyError = True"
| "is_Exception IndexError = True"
| "is_Exception (ToolkitError msg) = True"
| "is_Exception (BaseExceptionOnly msg) = False"

section \<open>Atom paths\<close>

definition is_H :: "Atom \<Rightarrow> bool" where
  "is_H key = (fst (snd key) = ''H'')"

text \<open>\<^verbatim>\<open>_non_h_items\<close>: the items of the dictionary whose key is not a hydrogen, in order.\<close>

definition non_h_items :: "(Atom \<times> 'v) list \<Rightarrow> (Atom \<times> 'v) list" where
  "non_h_items data = filter (\<lambda>(key, val). fst (snd key) \<noteq> ''H'') data"

text \<open>
  The body of the loop over \<^verbatim>\<open>nbs\<close> in \<^verbatim>\<open>_collect_atom_paths\<close>: the paths appended for
  one neighbour. \<^verbatim>\<open>or\<close> short-circuits, so \<^verbatim>\<open>neighbors[nb]\<close> is read (and may raise
  \<^verbatim>\<open>KeyError\<close>) only when \<^verbatim>\<open>nb\<close> is not a hydrogen.
\<close>

definition nb_paths :: "AtomDict \<Rightarrow> Atom \<Rightarrow> Atom \<Rightarrow> py_exc + AtomPath list" where
  "nb_paths neighbors atom nb =
     (if fst (snd nb) = ''H'' then Inr [[snd atom, snd nb]]
      else case map_of neighbors nb of
             None \<Rightarrow> Inl KeyError
           | Some l \<Rightarrow>
               if l = [atom] then Inr [[snd atom, snd nb]]
               else Inr (map (\<lambda>nb2. [snd atom, snd nb, snd nb2])
                          (filter (\<lambda>nb2. nb2 \<noteq> atom) l)))"

text \<open>The inner loop \<^verbatim>\<open>for nb in nbs\<close>, with the list \<^verbatim>\<open>paths\<close> as accumulator.\<close>

fun collect_nbs :: "AtomDict \<Rightarrow> Atom \<Rightarrow> Atom list \<Rightarrow> AtomPath list \<Rightarrow> py_exc + AtomPath list" where
  "collect_nbs neighbors atom [] paths = Inr paths"
| "collect_nbs neighbors atom (nb # nbs) paths =
     (case nb_paths neighbors atom nb of
        Inl e \<Rightarrow> Inl e
      | Inr ps \<Rightarrow> collect_nbs neighbors atom nbs (paths @ ps))"

text \<open>The outer loop over \<^verbatim>\<open>_non_h_items(neighbors)\<close>, with \<^verbatim>\<open>atom_paths\<close> as accumulator.\<close>

fun collect_atoms ::
  "AtomDict \<Rightarrow> (Atom \<times> Atom list) list \<Rightarrow> AtomPath list list \<Rightarrow> py_exc + AtomPath list list" where
  "collect_atoms neighbors [] atom_paths = Inr atom_paths"
| "collect_atoms neighbors ((atom, nbs) # items) atom_paths =
     (case collect_nbs neighbors atom nbs [] of
        Inl e \<Rightarrow> Inl e
      | Inr paths \<Rightarrow> collect_atoms neighbors items (atom_paths @ [paths]))"

definition collect_atom_paths :: "AtomDict \<Rightarrow> py_exc + AtomPath list list" where
  "collect_atom_paths neighbors = collect_atoms neighbors (non_h_items neighbors) []"

subsection \<open>The enumeration as the specification words it\<close>

text \<open>
  For a root \<open>A\<close> and a neighbour \<open>B\<close>: the length-2 path when \<open>B\<close> is a hydrogen or the
  neighbour list of \<open>B\<close> is exactly \<open>[A]\<close>; otherwise one length-3 path for every entry
  \<open>C \<noteq> A\<close> of the neighbour list of \<open>B\<close>.
\<close>

definition reported_neighbors :: "AtomDict \<Rightarrow> Atom \<Rightarrow> Atom list" where
  "reported_neighbors N B = (case map_of N B of None \<Rightarrow> [] | Some l \<Rightarrow> l)"

definition spec_emitted :: "AtomDict \<Rightarrow> Atom \<Rightarrow> Atom \<Rightarrow> AtomPath list" where
  "spec_emitted N A B =
     (if is_H B \<or> reported_neighbors N B = [A] then [[snd A, snd B]]
      else map (\<lambda>C. [snd A, snd B, snd C]) (filter (\<lambda>C. C \<noteq> A) (reported_neighbors N B)))"

definition spec_atom_paths :: "AtomDict \<Rightarrow> AtomPath list list" where
  "spec_atom_paths N =
     map (\<lambda>(A, nbs). concat (map (spec_emitted N A) nbs)) (filter (\<lambda>(A, nbs). \<not> is_H A) N)"

text \<open>
  Every neighbour that the enumerator looks up is a key: the non-hydrogen neighbours of the
  non-hydrogen keys.
\<close>

definition lookup_defined :: "AtomDict \<Rightarrow> Atom \<Rightarrow> bool" where
  "lookup_defined N B = (is_H B \<or> map_of N B \<noteq> None)"

definition lookups_defined :: "AtomDict \<Rightarrow> bool" where
  "lookups_defined N = list_all (\<lambda>(A, nbs). is_H A \<or> list_all (lookup_defined N) nbs) N"


section \<open>Floating-point values\<close>

text \<open>
  A NumPy \<^verbatim>\<open>float64\<close> is modelled by its value: a real number, an infinity or NaN.
  Finite arithmetic is exact (no rounding, no overflow) and the two zeros are one value;
  the operations on infinities and NaN follow IEEE 754, which NumPy applies with a warning
  and no exception.
\<close>

datatype npfloat = Fin real | PInf | NInf | NaN

instantiation npfloat :: comm_monoid_add
begin

definition zero_npfloat :: npfloat where
  "zero_npfloat = Fin 0"

fun plus_npfloat :: "npfloat \<Rightarrow> npfloat \<Rightarrow> npfloat" where
  "plus_npfloat (Fin x) (Fin y) = Fin (x + y)"
| "plus_npfloat NaN y = NaN"
| "plus_npfloat x NaN = NaN"
| "plus_npfloat PInf NInf = NaN"
| "plus_npfloat NInf PInf = NaN"
| "plus_npfloat PInf y = PInf"
| "plus_npfloat x PInf = PInf"
| "plus_npfloat NInf y = NInf"
| "plus_npfloat x NInf = NInf"

instance
proof
  fix u v w :: npfloat
  show "u + v = v + u"
    by (cases u; cases v; simp)
  show "0 + u = u"
    by (cases u; simp add: zero_npfloat_def)
  show "u + v + w = u + (v + w)"
    by (cases u; cases v; cases w; simp)
qed

end

definition signed_inf :: "real \<Rightarrow> npfloat" where
  "signed_inf s = (if 0 < s then PInf else if s < 0 then NInf else NaN)"

fun np_multiply :: "npfloat \<Rightarrow> npfloat \<Rightarrow> npfloat" where
  "np_multiply (Fin x) (Fin y) = Fin (x * y)"
| "np_multiply NaN y = NaN"
| "np_multiply x NaN = NaN"
| "np_multiply (Fin x) PInf = signed_inf x"
| "np_multiply (Fin x) NInf = signed_inf (- x)"
| "np_multiply PInf (Fin y) = signed_inf y"
| "np_multiply NInf (Fin y) = signed_inf (- y)"
| "np_multiply PInf PInf = PInf"
| "np_multiply PInf NInf = NInf"
| "np_multiply NInf PInf = NInf"
| "np_multiply NInf NInf = PInf"

fun np_negative :: "npfloat \<Rightarrow> npfloat" where
  "np_negative (Fin x) = Fin (- x)"
| "np_negative PInf = NInf"
| "np_negative NInf = PInf"
| "np_negative NaN = NaN"

text \<open>\<^verbatim>\<open>np.log2\<close>: minus infinity at zero, NaN below zero.\<close>

fun np_log2 :: "npfloat \<Rightarrow> npfloat" where
  "np_log2 (Fin x) = (if 0 < x then Fin (log 2 x) else if x = 0 then NInf else NaN)"
| "np_log2 PInf = PInf"
| "np_log2 NInf = NaN"
| "np_log2 NaN = NaN"

text \<open>\<^verbatim>\<open>2 ** x\<close>.\<close>

fun np_exp2 :: "npfloat \<Rightarrow> npfloat" where
  "np_exp2 (Fin x) = Fin (2 powr x)"
| "np_exp2 PInf = PInf"
| "np_exp2 NInf = Fin 0"
| "np_exp2 NaN = NaN"

text \<open>
  An integer count divided by the integer \<^verbatim>\<open>len(data)\<close> (NumPy true division of an
  integer array by a Python int).
\<close>

definition true_divide :: "nat \<Rightarrow> nat \<Rightarrow> npfloat" where
  "true_divide c n = (if n \<noteq> 0 then Fin (real c / real n) else if c = 0 then NaN else PInf)"

section \<open>Fractional occurrence\<close>

text \<open>
  \<^verbatim>\<open>collections.Counter(data)\<close> walks the data and, for each element, stores
  \<^verbatim>\<open>self.get(elem, 0) + 1\<close> under it: a new key goes to the end of the dictionary, a known
  key keeps its place.
\<close>

definition counter_add :: "('a \<times> nat) list \<Rightarrow> 'a \<Rightarrow> ('a \<times> nat) list" where
  "counter_add counter elem =
     AList.update elem ((case map_of counter elem of None \<Rightarrow> 0 | Some c \<Rightarrow> c) + 1) counter"

definition Counter :: "'a list \<Rightarrow> ('a \<times> nat) list" where
  "Counter data = foldl counter_add [] data"

definition fractional_occurrence :: "'a list \<Rightarrow> npfloat list" where
  "fractional_occurrence data =
     (let counter = Counter data;
          counts = map snd counter
      in map (\<lambda>c. true_divide c (length data)) counts)"

text \<open>The count stored under a key, \<^verbatim>\<open>counter.get(k, 0)\<close>.\<close>

definition counter_get :: "('a \<times> nat) list \<Rightarrow> 'a \<Rightarrow> nat" where
  "counter_get d k = (case map_of d k of None \<Rightarrow> 0 | Some c \<Rightarrow> c)"

section \<open>The graph-level entry point\<close>

text \<open>
  What the code reads of an RDKit molecule: the atoms in index order (the atom at position
  \<open>i\<close> has \<^verbatim>\<open>GetIdx() = i\<close>), and for each atom its symbol, its total degree, its total
  number of hydrogens and the indices of its neighbours.
\<close>

record rd_atom =
  GetSymbol :: string
  GetTotalDegree :: int
  GetTotalNumHs :: int
  GetNeighbors :: "nat list"

type_synonym Mol = "rd_atom list"

record MolecularComplexity =
  cm :: npfloat
  cm_star :: npfloat
  cse :: npfloat

definition get_atom_type :: "rd_atom \<Rightarrow> AtomType" where
  "get_atom_type atom =
     (let symbol = GetSymbol atom;
          degree = GetTotalDegree atom;
          h_count = GetTotalNumHs atom;
          non_h = degree - h_count
      in (symbol, degree, non_h))"

definition mol_atoms :: "Mol \<Rightarrow> Atom list" where
  "mol_atoms mol = map (\<lambda>(idx, atom). (idx, get_atom_type atom)) (enumerate 0 mol)"

definition list_index :: "'a list \<Rightarrow> nat \<Rightarrow> py_exc + 'a" where
  "list_index xs i = (if i < length xs then Inr (xs ! i) else Inl IndexError)"

definition GetAtomWithIdx :: "Mol \<Rightarrow> nat \<Rightarrow> py_exc + rd_atom" where
  "GetAtomWithIdx mol i =
     (if i < length mol then Inr (mol ! i) else Inl (ToolkitError ''Range Error''))"

text \<open>The inner comprehension \<^verbatim>\<open>[atoms[neighbor.GetIdx()] for neighbor in ...]\<close>.\<close>

fun resolve_neighbors :: "Atom list \<Rightarrow> nat list \<Rightarrow> py_exc + Atom list" where
  "resolve_neighbors atoms [] = Inr []"
| "resolve_neighbors atoms (k # ks) =
     (case list_index atoms k of
        Inl e \<Rightarrow> Inl e
      | Inr a \<Rightarrow>
          (case resolve_neighbors atoms ks of
             Inl e \<Rightarrow> Inl e
           | Inr nbs \<Rightarrow> Inr (a # nbs)))"

text \<open>The dictionary comprehension over \<^verbatim>\<open>atoms\<close>, with the dictionary built so far.\<close>

fun neighbors_loop :: "Mol \<Rightarrow> Atom list \<Rightarrow> Atom list \<Rightarrow> AtomDict \<Rightarrow> py_exc + AtomDict" where
  "neighbors_loop mol atoms [] d = Inr d"
| "neighbors_loop mol atoms (atom # rest) d =
     (case GetAtomWithIdx mol (fst atom) of
        Inl e \<Rightarrow> Inl e
      | Inr a \<Rightarrow>
          (case resolve_neighbors atoms (GetNeighbors a) of
             Inl e \<Rightarrow> Inl e
           | Inr nbs \<Rightarrow> neighbors_loop mol atoms rest (AList.update atom nbs d)))"

definition build_neighbors :: "Mol \<Rightarrow> py_exc + AtomDict" where
  "build_neighbors mol = (let atoms = mol_atoms mol in neighbors_loop mol atoms atoms [])"

text \<open>
  The body of the loop over \<^verbatim>\<open>atom_paths\<close>:
  \<^verbatim>\<open>-np.sum(pi * np.log2(pi)) + np.log2(total_paths)\<close>.
\<close>

definition atom_complexity :: "AtomPath list \<Rightarrow> npfloat" where
  "atom_complexity paths =
     (let total_paths = length paths;
          pi = fractional_occurrence paths
      in np_negative (sum_list (map (\<lambda>p. np_multiply p (np_log2 p)) pi))
           + np_log2 (Fin (real total_paths)))"

text \<open>The loop \<^verbatim>\<open>for i, paths in enumerate(atom_paths): cas[i] = ...\<close>.\<close>

fun cas_loop :: "(nat \<times> AtomPath list) list \<Rightarrow> npfloat list \<Rightarrow> npfloat list" where
  "cas_loop [] cas = cas"
| "cas_loop ((i, paths) # rest) cas = cas_loop rest (cas[i := atom_complexity paths])"

text \<open>Lines 121 to 138: the three scores from the enumerated paths.\<close>

definition complexity_of_paths :: "AtomPath list list \<Rightarrow> MolecularComplexity" where
  "complexity_of_paths atom_paths =
     (let cas = cas_loop (enumerate 0 atom_paths) (replicate (length atom_paths) (Fin 0));
          cm = sum_list cas;
          cm_star = np_log2 (sum_list (map np_exp2 cas));
          atom_environments = map sort atom_paths;
          qi = fractional_occurrence atom_environments;
          cse = np_negative (sum_list (map (\<lambda>q. np_multiply q (np_log2 q)) qi))
      in \<lparr>cm = cm, cm_star = cm_star, cse = cse\<rparr>)"

definition calculate_molecular_complexity :: "Mol \<Rightarrow> py_exc + MolecularComplexity" where
  "calculate_molecular_complexity mol =
     (case build_neighbors mol of
        Inl e \<Rightarrow> Inl e
      | Inr neighbors \<Rightarrow>
          (case collect_atom_paths neighbors of
             Inl e \<Rightarrow> Inl e
           | Inr atom_paths \<Rightarrow> Inr (complexity_of_paths atom_paths)))"

section \<open>The string-notation entry point\<close>

text \<open>
  \<^verbatim>\<open>Chem.MolFromSmiles\<close> and \<^verbatim>\<open>Chem.AddHs\<close> belong to the external toolkit and are
  parameters: the parser returns a molecule, returns \<^verbatim>\<open>None\<close> or raises; hydrogen addition
  is handed whatever the parser returned and returns a molecule or raises.
\<close>

definition nan_result :: MolecularComplexity where
  "nan_result = \<lparr>cm = NaN, cm_star = NaN, cse = NaN\<rparr>"

definition try_body ::
  "(string \<Rightarrow> py_exc + Mol option) \<Rightarrow> (Mol option \<Rightarrow> py_exc + Mol) \<Rightarrow> string
   \<Rightarrow> py_exc + MolecularComplexity" where
  "try_body MolFromSmiles AddHs smiles =
     (case MolFromSmiles smiles of
        Inl e \<Rightarrow> Inl e
      | Inr parsed \<Rightarrow>
          (case AddHs parsed of
             Inl e \<Rightarrow> Inl e
           | Inr mol \<Rightarrow> calculate_molecular_complexity mol))"

definition molecular_complexity ::
  "(string \<Rightarrow> py_exc + Mol option) \<Rightarrow> (Mol option \<Rightarrow> py_exc + Mol) \<Rightarrow> string
   \<Rightarrow> py_exc + MolecularComplexity" where
  "molecular_complexity MolFromSmiles AddHs smiles =
     (case try_body MolFromSmiles AddHs smiles of
        Inl e \<Rightarrow> if is_Exception e then Inr nan_result else Inl e
      | Inr result \<Rightarrow> Inr result)"

section \<open>The scores as the specification words them\<close>

text \<open>
  The fractional occurrence of a value is its count over the length of the sequence; the
  entropy is \<open>- \<Sum> p log\<^sub>2 p\<close> over the distinct values; \<open>CA = entropy + log\<^sub>2 N\<close>;
  \<open>CM = \<Sum> CA\<close>; \<open>CM* = log\<^sub>2 (\<Sum> 2\<^sup>C\<^sup>A)\<close>; \<open>Cse\<close> is the entropy of the sorted path lists.
\<close>

definition spec_fraction :: "'a list \<Rightarrow> 'a \<Rightarrow> real" where
  "spec_fraction data v = real (count_list data v) / real (length data)"






section \<open>The neighbour dictionary in closed form\<close>

text \<open>
  A molecule whose neighbour indices all denote atoms of the molecule (every RDKit molecule
  is one), and the dictionary that lines 108 to 117 build for it.
\<close>

definition valid_mol :: "Mol \<Rightarrow> bool" where
  "valid_mol mol = list_all (\<lambda>a. list_all (\<lambda>k. k < length mol) (GetNeighbors a)) mol"

definition neighbor_map :: "Mol \<Rightarrow> AtomDict" where
  "neighbor_map mol =
     map (\<lambda>(i, a). ((i, get_atom_type a), map (\<lambda>k. (k, get_atom_type (mol ! k))) (GetNeighbors a)))
       (enumerate 0 mol)"

text \<open>Helpers for the loop that builds the dictionary.\<close>

definition atom_of :: "Mol \<Rightarrow> nat \<Rightarrow> Atom" where
  "atom_of mol k = (k, get_atom_type (mol ! k))"

definition atom_entry :: "Mol \<Rightarrow> Atom list \<Rightarrow> Atom \<Rightarrow> Atom \<times> Atom list" where
  "atom_entry mol atoms atom = (atom, map ((!) atoms) (GetNeighbors (mol ! fst atom)))"

definition atom_resolvable :: "Mol \<Rightarrow> Atom list \<Rightarrow> Atom \<Rightarrow> bool" where
  "atom_resolvable mol atoms atom =
     list_all (\<lambda>k. k < length atoms) (GetNeighbors (mol ! fst atom))"

section \<open>Renumbering the atoms\<close>







section \<open>Example inputs\<close>

text \<open>
  A three-atom chain C-O-H as a neighbour map.
\<close>

definition chain_COH :: AtomDict where
  "chain_COH =
     [((0, ''C'', 4, 1), [(1, ''O'', 2, 1)]),
      ((1, ''O'', 2, 1), [(0, ''C'', 4, 1), (2, ''H'', 1, 0)]),
      ((2, ''H'', 1, 0), [(1, ''O'', 2, 1)])]"

text \<open>
  Water and the hydrogen molecule with explicit hydrogens, as \<^verbatim>\<open>Chem.AddHs\<close> returns them.
\<close>

definition water :: Mol where
  "water =
     [\<lparr>GetSymbol = ''O'', GetTotalDegree = 2, GetTotalNumHs = 2, GetNeighbors = [1, 2]\<rparr>,
      \<lparr>GetSymbol = ''H'', GetTotalDegree = 1, GetTotalNumHs = 0, GetNeighbors = [0]\<rparr>,
      \<lparr>GetSymbol = ''H'', GetTotalDegree = 1, GetTotalNumHs = 0, GetNeighbors = [0]\<rparr>]"


definition dihydrogen :: Mol where
  "dihydrogen =
     [\<lparr>GetSymbol = ''H'', GetTotalDegree = 1, GetTotalNumHs = 1, GetNeighbors = [1]\<rparr>,
      \<lparr>GetSymbol = ''H'', GetTotalDegree = 1, GetTotalNumHs = 1, GetNeighbors = [0]\<rparr>]"

text \<open>
  Stand-ins for the toolkit: a parser that returns \<^verbatim>\<open>None\<close> for every string, as
  \<^verbatim>\<open>Chem.MolFromSmiles\<close> does for an unparsable one, a parser that raises, a parser that
  returns water without hydrogens, hydrogen addition that raises on \<^verbatim>\<open>None\<close>, and a
  hydrogen addition that hands back a molecule with a dangling neighbour index.
\<close>

definition parse_none :: "string \<Rightarrow> py_exc + Mol option" where
  "parse_none smiles = Inr None"

definition parse_raises :: "string \<Rightarrow> py_exc + Mol option" where
  "parse_raises smiles = Inl (ToolkitError ''parse'')"

definition parse_oxygen :: "string \<Rightarrow> py_exc + Mol option" where
  "parse_oxygen smiles =
     Inr (Some [\<lparr>GetSymbol = ''O'', GetTotalDegree = 2, GetTotalNumHs = 2, GetNeighbors = []\<rparr>])"

definition add_hs_strict :: "Mol option \<Rightarrow> py_exc + Mol" where
  "add_hs_strict parsed =
     (case parsed of None \<Rightarrow> Inl (ToolkitError ''ArgumentError'') | Some mol \<Rightarrow> Inr water)"

definition dangling :: Mol where
  "dangling =
     [\<lparr>GetSymbol = ''O'', GetTotalDegree = 2, GetTotalNumHs = 2, GetNeighbors = [1, 2]\<rparr>]"

definition add_hs_dangling :: "Mol option \<Rightarrow> py_exc + Mol" where
  "add_hs_dangling parsed = Inr dangling"



section \<open>Properties of the path enumerator\<close>

lemma nb_paths_defined:
  "lookup_defined N B \<Longrightarrow> nb_paths N A B = Inr (spec_emitted N A B)"
  by (auto simp: lookup_defined_def nb_paths_def spec_emitted_def reported_neighbors_def is_H_def
      split: option.splits)

lemma nb_paths_undefined:
  "\<not> lookup_defined N B \<Longrightarrow> nb_paths N A B = Inl KeyError"
  by (simp add: lookup_defined_def nb_paths_def is_H_def)

lemma collect_nbs_defined:
  "list_all (lookup_defined N) nbs \<Longrightarrow>
   collect_nbs N A nbs acc = Inr (acc @ concat (map (spec_emitted N A) nbs))"
  by (induction nbs arbitrary: acc) (simp_all add: nb_paths_defined)

lemma collect_nbs_undefined:
  "\<not> list_all (lookup_defined N) nbs \<Longrightarrow> collect_nbs N A nbs acc = Inl KeyError"
proof (induction nbs arbitrary: acc)
  case Nil
  then show ?case by simp
next
  case (Cons B nbs)
  show ?case
  proof (cases "lookup_defined N B")
    case True
    with Cons.prems have "\<not> list_all (lookup_defined N) nbs" by simp
    from Cons.IH [OF this] True show ?thesis by (simp add: nb_paths_defined)
  next
    case False
    then show ?thesis by (simp add: nb_paths_undefined)
  qed
qed

lemma collect_atoms_defined:
  "list_all (\<lambda>(A, nbs). list_all (lookup_defined N) nbs) items \<Longrightarrow>
   collect_atoms N items acc =
     Inr (acc @ map (\<lambda>(A, nbs). concat (map (spec_emitted N A) nbs)) items)"
  by (induction items arbitrary: acc) (auto simp: collect_nbs_defined)

lemma collect_atoms_undefined:
  "\<not> list_all (\<lambda>(A, nbs). list_all (lookup_defined N) nbs) items \<Longrightarrow>
   collect_atoms N items acc = Inl KeyError"
proof (induction items arbitrary: acc)
  case Nil
  then show ?case by simp
next
  case (Cons item items)
  obtain A nbs where item: "item = (A, nbs)" by (cases item)
  show ?case
  proof (cases "list_all (lookup_defined N) nbs")
    case True
    with Cons.prems item
    have "\<not> list_all (\<lambda>(A, nbs). list_all (lookup_defined N) nbs) items"
      by simp
    from Cons.IH [OF this] True item show ?thesis by (simp add: collect_nbs_defined)
  next
    case False
    with item show ?thesis by (simp add: collect_nbs_undefined)
  qed
qed

lemma non_h_items_filter: "non_h_items N = filter (\<lambda>(A, nbs). \<not> is_H A) N"
  by (simp add: non_h_items_def is_H_def)

lemma lookups_defined_items:
  "lookups_defined N \<longleftrightarrow>
   list_all (\<lambda>(A, nbs). list_all (lookup_defined N) nbs) (non_h_items N)"
  by (auto simp: lookups_defined_def non_h_items_filter list_all_iff)

lemma collect_atom_paths_eq:
  "collect_atom_paths N = (if lookups_defined N then Inr (spec_atom_paths N) else Inl KeyError)"
  by (simp add: collect_atom_paths_def lookups_defined_items collect_atoms_defined
      collect_atoms_undefined spec_atom_paths_def non_h_items_filter)

text \<open>
  Claim C1. For every non-hydrogen key \<open>A\<close> of the neighbour map, in dictionary order, and
  every neighbour \<open>B\<close> of \<open>A\<close>, in list order, the enumerator emits exactly the length-2 path
  (type \<open>A\<close>, type \<open>B\<close>) when \<open>B\<close> is a hydrogen or the neighbour list of \<open>B\<close> is \<open>[A]\<close>, and
  otherwise one length-3 path (type \<open>A\<close>, type \<open>B\<close>, type \<open>C\<close>) for every entry \<open>C \<noteq> A\<close> of
  the neighbour list of \<open>B\<close>, and nothing else: the result is \<^const>\<open>spec_atom_paths\<close>. This
  is the result whenever every neighbour that is looked up is a key of the map; when one
  is not, the lookup raises \<^verbatim>\<open>KeyError\<close>.
\<close>

theorem C1_enumeration:
  "collect_atom_paths N = (if lookups_defined N then Inr (spec_atom_paths N) else Inl KeyError)"
proof (cases "lookups_defined N")
  case True
  then have "list_all (\<lambda>(A, nbs). list_all (lookup_defined N) nbs) (non_h_items N)"
    by (simp only: lookups_defined_items)
  then have "collect_atoms N (non_h_items N) [] =
      Inr ([] @ map (\<lambda>(A, nbs). concat (map (spec_emitted N A) nbs)) (non_h_items N))"
    by (rule collect_atoms_defined)
  with True show ?thesis
    by (simp add: collect_atom_paths_def spec_atom_paths_def non_h_items_filter)
next
  case False
  then have "\<not> list_all (\<lambda>(A, nbs). list_all (lookup_defined N) nbs) (non_h_items N)"
    unfolding lookups_defined_items .
  then have "collect_atoms N (non_h_items N) [] = Inl KeyError"
    by (rule collect_atoms_undefined)
  with False show ?thesis
    by (simp add: collect_atom_paths_def)
qed

theorem C1_enumeration_witness:
  "lookups_defined chain_COH \<and>
   collect_atom_paths chain_COH =
     Inr [[[(''C'', 4, 1), (''O'', 2, 1), (''H'', 1, 0)]],
          [[(''O'', 2, 1), (''C'', 4, 1)], [(''O'', 2, 1), (''H'', 1, 0)]]]"
  using C1_enumeration [of chain_COH]
  by (simp add: chain_COH_def lookups_defined_def lookup_defined_def is_H_def
      spec_atom_paths_def spec_emitted_def reported_neighbors_def)











section \<open>Properties of the counter and of the fractional occurrence\<close>

lemma counter_get_Nil: "counter_get [] k = 0"
  by (simp add: counter_get_def)

lemma counter_add_keys:
  "fst ` set (counter_add d x) = insert x (fst ` set d)"
  by (simp add: counter_add_def dom_update)

lemma counter_add_distinct:
  "distinct (map fst d) \<Longrightarrow> distinct (map fst (counter_add d x))"
  by (simp add: counter_add_def distinct_update)

lemma counter_add_get:
  "counter_get (counter_add d x) k = counter_get d k + (if x = k then 1 else 0)"
  by (simp add: counter_add_def counter_get_def update_conv')

lemma counter_fold_keys:
  "fst ` set (foldl counter_add d xs) = fst ` set d \<union> set xs"
proof (induction xs arbitrary: d)
  case Nil
  show ?case by simp
next
  case (Cons x xs)
  show ?case
    unfolding foldl_Cons Cons.IH counter_add_keys by auto
qed

lemma counter_fold_distinct:
  "distinct (map fst d) \<Longrightarrow> distinct (map fst (foldl counter_add d xs))"
  by (induction xs arbitrary: d) (simp_all add: counter_add_distinct)

lemma counter_fold_get:
  "counter_get (foldl counter_add d xs) k = counter_get d k + count_list xs k"
  by (induction xs arbitrary: d) (simp_all add: counter_add_get)

lemma alist_values:
  "distinct (map fst d) \<Longrightarrow> map snd d = map (counter_get d) (map fst d)"
proof (induction d)
  case Nil
  show ?case by simp
next
  case (Cons kv d)
  obtain k v where kv: "kv = (k, v)" by (cases kv)
  from Cons.prems kv have fresh: "k \<notin> fst ` set d" and rest: "distinct (map fst d)"
    by simp_all
  have "map (counter_get (kv # d)) (map fst d) = map (counter_get d) (map fst d)"
  proof (rule map_cong [OF refl])
    fix k' assume "k' \<in> set (map fst d)"
    with fresh have "k' \<noteq> k" by auto
    then show "counter_get (kv # d) k' = counter_get d k'"
      by (simp add: counter_get_def kv)
  qed
  with Cons.IH [OF rest] show ?case
    by (simp add: kv counter_get_def)
qed

lemma Counter_keys: "fst ` set (Counter data) = set data"
  by (simp add: Counter_def counter_fold_keys)

lemma Counter_distinct: "distinct (map fst (Counter data))"
  by (simp add: Counter_def counter_fold_distinct)

lemma Counter_values:
  "map snd (Counter data) = map (count_list data) (map fst (Counter data))"
proof -
  have "counter_get (Counter data) = count_list data"
    by (rule ext) (simp add: Counter_def counter_fold_get counter_get_Nil)
  with alist_values [OF Counter_distinct, of data] show ?thesis by (simp only:)
qed

lemma fractional_occurrence_eq:
  "fractional_occurrence data =
   map (\<lambda>v. true_divide (count_list data v) (length data)) (map fst (Counter data))"
proof -
  have "fractional_occurrence data =
      map (\<lambda>c. true_divide c (length data)) (map snd (Counter data))"
    by (simp only: fractional_occurrence_def Let_def)
  also have "\<dots> =
      map (\<lambda>c. true_divide c (length data)) (map (count_list data) (map fst (Counter data)))"
    by (simp only: Counter_values)
  also have "\<dots> =
      map (\<lambda>v. true_divide (count_list data v) (length data)) (map fst (Counter data))"
    by (simp only: map_map comp_def)
  finally show ?thesis .
qed

lemma fractional_occurrence_fractions:
  assumes "data \<noteq> []"
  shows "fractional_occurrence data = map (\<lambda>v. Fin (spec_fraction data v)) (map fst (Counter data))"
  using assms by (simp add: fractional_occurrence_eq true_divide_def spec_fraction_def)

lemma sum_list_Fin: "sum_list (map (\<lambda>x. Fin (f x)) xs) = Fin (sum_list (map f xs))"
  by (induction xs) (simp_all add: zero_npfloat_def)

lemma sum_over_Counter_keys:
  "sum_list (map f (map fst (Counter data))) = sum f (set data)"
  for f :: "'a \<Rightarrow> real"
  using sum_list_distinct_conv_sum_set [OF Counter_distinct, of f data]
  by (simp only: set_map Counter_keys)

lemma spec_fraction_sum:
  assumes "data \<noteq> []"
  shows "(\<Sum>v\<in>set data. spec_fraction data v) = 1"
proof -
  have "(\<Sum>v\<in>set data. spec_fraction data v) = real (\<Sum>v\<in>set data. count_list data v) / real (length data)"
    by (simp add: spec_fraction_def sum_divide_distrib)
  also have "(\<Sum>v\<in>set data. count_list data v) = length data"
    by (rule sum_count_set) simp_all
  finally show ?thesis using assms by simp
qed

text \<open>
  Claim C4. For a non-empty sequence, \<^const>\<open>fractional_occurrence\<close> returns one fraction
  for each distinct value (the keys of the counter are distinct and are exactly the values
  of the sequence), each fraction is the count of its value over the length of the
  sequence, and the fractions sum to 1 (in exact arithmetic).
\<close>

theorem C4_fractions:
  assumes "data \<noteq> []"
  shows "distinct (map fst (Counter data)) \<and> set (map fst (Counter data)) = set data \<and>
         fractional_occurrence data =
           map (\<lambda>v. Fin (real (count_list data v) / real (length data))) (map fst (Counter data)) \<and>
         length (fractional_occurrence data) = card (set data) \<and>
         sum_list (fractional_occurrence data) = Fin 1"
proof -
  have frac: "fractional_occurrence data =
      map (\<lambda>v. Fin (real (count_list data v) / real (length data))) (map fst (Counter data))"
    using fractional_occurrence_fractions [OF assms] by (simp add: spec_fraction_def)
  have "length (fractional_occurrence data) = length (map fst (Counter data))"
    by (simp add: fractional_occurrence_eq)
  also have "\<dots> = card (set data)"
    using distinct_card [OF Counter_distinct, of data] by (simp only: set_map Counter_keys)
  finally have len: "length (fractional_occurrence data) = card (set data)" .
  have "sum_list (fractional_occurrence data) = Fin (\<Sum>v\<in>set data. spec_fraction data v)"
    unfolding fractional_occurrence_fractions [OF assms] sum_list_Fin sum_over_Counter_keys ..
  then have total: "sum_list (fractional_occurrence data) = Fin 1"
    by (simp add: spec_fraction_sum [OF assms])
  have "set (map fst (Counter data)) = set data"
    by (simp only: set_map Counter_keys)
  with Counter_distinct frac len total show ?thesis by blast
qed

theorem C4_fractions_witness:
  "[1, 2, 1 :: nat] \<noteq> [] \<and>
   fractional_occurrence [1, 2, 1 :: nat] = [Fin (2 / 3), Fin (1 / 3)] \<and>
   sum_list (fractional_occurrence [1, 2, 1 :: nat]) = Fin 1"
  using C4_fractions [of "[1, 2, 1 :: nat]"]
  by (simp add: Counter_def counter_add_def)

section \<open>The scores in closed form\<close>

lemma fractional_occurrence_Nil: "fractional_occurrence [] = []"
  by (simp add: fractional_occurrence_def Counter_def)












section \<open>Building the neighbour dictionary\<close>

lemma length_mol_atoms: "length (mol_atoms mol) = length mol"
  by (simp add: mol_atoms_def)

lemma mol_atoms_nth: "k < length mol \<Longrightarrow> mol_atoms mol ! k = (k, get_atom_type (mol ! k))"
  by (simp add: mol_atoms_def nth_enumerate_eq)

lemma mol_atoms_keys: "map fst (mol_atoms mol) = [0..<length mol]"
  by (rule nth_equalityI) (simp_all add: length_mol_atoms mol_atoms_nth)

lemma distinct_mol_atoms: "distinct (mol_atoms mol)"
  using distinct_upt [of 0 "length mol"] unfolding mol_atoms_keys [symmetric]
  by (rule distinct_map [THEN iffD1, THEN conjunct1])

lemma resolve_neighbors_eq:
  "resolve_neighbors atoms ks =
     (if list_all (\<lambda>k. k < length atoms) ks then Inr (map ((!) atoms) ks) else Inl IndexError)"
  by (induction ks) (simp_all add: list_index_def)

lemma update_fresh: "k \<notin> fst ` set al \<Longrightarrow> AList.update k v al = al @ [(k, v)]"
  by (induction al) auto

lemma neighbors_loop_eq:
  assumes "distinct rest" and "set rest \<inter> fst ` set d = {}"
    and "\<forall>atom\<in>set rest. fst atom < length mol"
  shows "neighbors_loop mol atoms rest d =
     (if list_all (atom_resolvable mol atoms) rest
      then Inr (d @ map (atom_entry mol atoms) rest) else Inl IndexError)"
  using assms
proof (induction rest arbitrary: d)
  case Nil
  show ?case by simp
next
  case (Cons atom rest)
  from Cons.prems have idx: "fst atom < length mol" by simp
  show ?case
  proof (cases "atom_resolvable mol atoms atom")
    case False
    with idx show ?thesis
      by (simp add: GetAtomWithIdx_def resolve_neighbors_eq atom_resolvable_def)
  next
    case True
    let ?d = "AList.update atom (map ((!) atoms) (GetNeighbors (mol ! fst atom))) d"
    from Cons.prems have fresh: "atom \<notin> fst ` set d" by auto
    then have d': "?d = d @ [atom_entry mol atoms atom]"
      by (simp add: update_fresh atom_entry_def)
    from Cons.prems have "distinct rest" and "set rest \<inter> fst ` set ?d = {}"
      and "\<forall>atom\<in>set rest. fst atom < length mol"
      by (auto simp: d' atom_entry_def)
    from Cons.IH [OF this] True idx show ?thesis
      by (simp add: GetAtomWithIdx_def resolve_neighbors_eq atom_resolvable_def [symmetric] d')
  qed
qed

lemma mol_atoms_entry:
  assumes "valid_mol mol"
  shows "map (atom_entry mol (mol_atoms mol)) (mol_atoms mol) = neighbor_map mol"
proof (rule nth_equalityI)
  show "length (map (atom_entry mol (mol_atoms mol)) (mol_atoms mol)) = length (neighbor_map mol)"
    by (simp add: neighbor_map_def length_mol_atoms)
next
  fix i assume "i < length (map (atom_entry mol (mol_atoms mol)) (mol_atoms mol))"
  then have i: "i < length mol" by (simp add: length_mol_atoms)
  from assms i have "\<forall>k\<in>set (GetNeighbors (mol ! i)). k < length mol"
    by (auto simp: valid_mol_def list_all_iff)
  then have "map ((!) (mol_atoms mol)) (GetNeighbors (mol ! i))
      = map (\<lambda>k. (k, get_atom_type (mol ! k))) (GetNeighbors (mol ! i))"
    by (intro map_cong [OF refl]) (simp add: mol_atoms_nth)
  with i show "map (atom_entry mol (mol_atoms mol)) (mol_atoms mol) ! i = neighbor_map mol ! i"
    by (simp add: length_mol_atoms mol_atoms_nth atom_entry_def neighbor_map_def nth_enumerate_eq)
qed

lemma all_resolvable_iff:
  "list_all (atom_resolvable mol (mol_atoms mol)) (mol_atoms mol) \<longleftrightarrow> valid_mol mol"
proof -
  have "list_all (atom_resolvable mol (mol_atoms mol)) (mol_atoms mol)
      \<longleftrightarrow> (\<forall>i<length mol. atom_resolvable mol (mol_atoms mol) (mol_atoms mol ! i))"
    by (simp add: list_all_length length_mol_atoms)
  also have "\<dots> \<longleftrightarrow> (\<forall>i<length mol. list_all (\<lambda>k. k < length mol) (GetNeighbors (mol ! i)))"
    by (simp add: atom_resolvable_def mol_atoms_nth length_mol_atoms)
  also have "\<dots> \<longleftrightarrow> valid_mol mol"
    by (simp add: valid_mol_def list_all_length)
  finally show ?thesis .
qed

lemma build_neighbors_eq:
  "build_neighbors mol = (if valid_mol mol then Inr (neighbor_map mol) else Inl IndexError)"
proof -
  have "\<forall>atom\<in>set (mol_atoms mol). fst atom < length mol"
    using mol_atoms_keys [of mol] by (metis atLeastLessThan_iff image_eqI list.set_map set_upt)
  with distinct_mol_atoms [of mol]
  have "neighbors_loop mol (mol_atoms mol) (mol_atoms mol) [] =
     (if list_all (atom_resolvable mol (mol_atoms mol)) (mol_atoms mol)
      then Inr ([] @ map (atom_entry mol (mol_atoms mol)) (mol_atoms mol)) else Inl IndexError)"
    by (intro neighbors_loop_eq) simp_all
  then show ?thesis
    by (simp add: build_neighbors_def Let_def all_resolvable_iff mol_atoms_entry)
qed

lemma neighbor_map_upt:
  "neighbor_map mol =
   map (\<lambda>k. (atom_of mol k, map (atom_of mol) (GetNeighbors (mol ! k)))) [0..<length mol]"
  by (rule nth_equalityI) (simp_all add: neighbor_map_def nth_enumerate_eq atom_of_def)


lemma neighbor_map_keys: "map fst (neighbor_map mol) = map (atom_of mol) [0..<length mol]"
  by (simp add: neighbor_map_upt comp_def)

lemma atom_of_inj: "atom_of mol j = atom_of mol k \<longleftrightarrow> j = k"
  by (auto simp: atom_of_def)

lemma distinct_neighbor_map_keys: "distinct (map fst (neighbor_map mol))"
  unfolding neighbor_map_keys
  by (simp add: distinct_map inj_on_def atom_of_inj)

lemma neighbor_map_lookup:
  assumes "k < length mol"
  shows "map_of (neighbor_map mol) (atom_of mol k) = Some (map (atom_of mol) (GetNeighbors (mol ! k)))"
proof -
  from assms have "(atom_of mol k, map (atom_of mol) (GetNeighbors (mol ! k))) \<in> set (neighbor_map mol)"
    by (auto simp: neighbor_map_upt)
  with distinct_neighbor_map_keys show ?thesis
    by simp
qed

lemma neighbor_map_lookups_defined:
  assumes "valid_mol mol"
  shows "lookups_defined (neighbor_map mol)"
proof -
  have "lookup_defined (neighbor_map mol) B"
    if "(A, nbs) \<in> set (neighbor_map mol)" and "B \<in> set nbs" for A nbs B
  proof -
    from that obtain i j where "i < length mol" "j \<in> set (GetNeighbors (mol ! i))" "B = atom_of mol j"
      by (auto simp: neighbor_map_upt)
    moreover from this assms have "j < length mol"
      by (auto simp: valid_mol_def list_all_iff)
    ultimately show ?thesis
      by (simp add: lookup_defined_def neighbor_map_lookup)
  qed
  then show ?thesis
    by (auto simp: lookups_defined_def list_all_iff)
qed

lemma calculate_eq:
  "calculate_molecular_complexity mol =
     (if valid_mol mol then Inr (complexity_of_paths (spec_atom_paths (neighbor_map mol)))
      else Inl IndexError)"
  by (simp add: calculate_molecular_complexity_def build_neighbors_eq collect_atom_paths_eq
      neighbor_map_lookups_defined)



subsection \<open>log-sum-exp\<close>




subsection \<open>Entropy of a constant sequence\<close>



section \<open>Properties of the graph-level entry point\<close>










lemma neighbor_map_all_H:
  assumes "\<forall>a\<in>set mol. GetSymbol a = ''H''"
  shows "non_h_items (neighbor_map mol) = []"
proof -
  have "fst (snd (atom_of mol k)) = ''H''" if "k < length mol" for k
    using that assms by (simp add: atom_of_def get_atom_type_def Let_def)
  then show ?thesis
    by (auto simp: non_h_items_def neighbor_map_upt filter_empty_conv)
qed

text \<open>
  Claim C10. \<^const>\<open>fractional_occurrence\<close> of the empty sequence is the empty array
  (whose sum is 0), and for a molecule without non-hydrogen atoms, the empty molecule
  included, the graph-level entry point returns \<open>CM = 0\<close>, \<open>CM*\<close> minus infinity and \<open>Cse = 0\<close>
  (the floating-point \<open>-0.0\<close>, which the model does not tell from \<open>0.0\<close>).
\<close>

theorem C10_empty:
  "fractional_occurrence ([] :: 'a list) = [] \<and>
   sum_list (fractional_occurrence ([] :: 'a list)) = Fin 0 \<and>
   (valid_mol mol \<and> (\<forall>a\<in>set mol. GetSymbol a = ''H'') \<longrightarrow>
      calculate_molecular_complexity mol = Inr \<lparr>cm = Fin 0, cm_star = NInf, cse = Fin 0\<rparr>)"
proof -
  have "calculate_molecular_complexity mol = Inr \<lparr>cm = Fin 0, cm_star = NInf, cse = Fin 0\<rparr>"
    if valid: "valid_mol mol" and all_H: "\<forall>a\<in>set mol. GetSymbol a = ''H''"
  proof -
    have "collect_atom_paths (neighbor_map mol) = Inr []"
      by (simp add: collect_atom_paths_def neighbor_map_all_H [OF all_H])
    moreover have "complexity_of_paths [] = \<lparr>cm = Fin 0, cm_star = NInf, cse = Fin 0\<rparr>"
      by (simp add: complexity_of_paths_def fractional_occurrence_Nil zero_npfloat_def)
    ultimately show ?thesis
      using valid by (simp add: calculate_molecular_complexity_def build_neighbors_eq)
  qed
  then show ?thesis
    by (simp add: fractional_occurrence_Nil zero_npfloat_def)
qed

theorem C10_empty_witness:
  "valid_mol dihydrogen \<and>
   calculate_molecular_complexity dihydrogen = Inr \<lparr>cm = Fin 0, cm_star = NInf, cse = Fin 0\<rparr> \<and>
   calculate_molecular_complexity [] = Inr \<lparr>cm = Fin 0, cm_star = NInf, cse = Fin 0\<rparr>"
proof -
  have valid: "valid_mol dihydrogen" and all_H: "\<forall>a\<in>set dihydrogen. GetSymbol a = ''H''"
    by (simp_all add: valid_mol_def dihydrogen_def)
  have valid0: "valid_mol []" and all_H0: "\<forall>a\<in>set ([] :: Mol). GetSymbol a = ''H''"
    by (simp_all add: valid_mol_def)
  have "calculate_molecular_complexity dihydrogen = Inr \<lparr>cm = Fin 0, cm_star = NInf, cse = Fin 0\<rparr>"
    using C10_empty [where 'a = nat and mol = dihydrogen] valid all_H by simp
  moreover
  have "calculate_molecular_complexity [] = Inr \<lparr>cm = Fin 0, cm_star = NInf, cse = Fin 0\<rparr>"
    using C10_empty [where 'a = nat and mol = "[]"] valid0 by simp
  ultimately show ?thesis using valid by simp
qed

section \<open>Properties of the string-notation entry point\<close>

lemma calculate_raises_only_IndexError:
  "calculate_molecular_complexity mol = Inl e \<Longrightarrow> e = IndexError"
  by (simp add: calculate_eq split: if_splits)

lemma build_failure_propagates:
  "build_neighbors mol = Inl e \<Longrightarrow> calculate_molecular_complexity mol = Inl e"
  by (simp add: calculate_molecular_complexity_def)

lemma molecular_complexity_caught:
  "try_body MolFromSmiles AddHs smiles = Inl e \<Longrightarrow> is_Exception e \<Longrightarrow>
   molecular_complexity MolFromSmiles AddHs smiles = Inr nan_result"
  by (simp add: molecular_complexity_def)

lemma molecular_complexity_not_caught:
  "try_body MolFromSmiles AddHs smiles = Inl e \<Longrightarrow> \<not> is_Exception e \<Longrightarrow>
   molecular_complexity MolFromSmiles AddHs smiles = Inl e"
  by (simp add: molecular_complexity_def)

lemma dangling_fails: "calculate_molecular_complexity dangling = Inl IndexError"
  by (simp add: calculate_eq valid_mol_def dangling_def)

text \<open>
  Claim C5. At the string-notation entry point a failure (an \<^verbatim>\<open>Exception\<close>) of the parser
  or of the hydrogen addition, whatever the two toolkit functions are, is caught and the
  result is the triple of three NaNs. The graph-level entry point has no handler: when
  building the neighbour dictionary fails, as it does exactly for a dangling neighbour
  index, the failure is the result.
\<close>

theorem C5_parse_failures:
  "(MolFromSmiles smiles = Inl e \<and> is_Exception e \<longrightarrow>
      molecular_complexity MolFromSmiles AddHs smiles = Inr nan_result) \<and>
   (MolFromSmiles smiles = Inr parsed \<and> AddHs parsed = Inl e \<and> is_Exception e \<longrightarrow>
      molecular_complexity MolFromSmiles AddHs smiles = Inr nan_result) \<and>
   nan_result = \<lparr>cm = NaN, cm_star = NaN, cse = NaN\<rparr> \<and>
   (build_neighbors mol = Inl e' \<longrightarrow> calculate_molecular_complexity mol = Inl e') \<and>
   (\<not> valid_mol mol \<longrightarrow> calculate_molecular_complexity mol = Inl IndexError)"
proof (intro conjI impI)
  assume "MolFromSmiles smiles = Inl e \<and> is_Exception e"
  then show "molecular_complexity MolFromSmiles AddHs smiles = Inr nan_result"
    by (intro molecular_complexity_caught [of _ _ _ e]) (simp_all add: try_body_def)
next
  assume "MolFromSmiles smiles = Inr parsed \<and> AddHs parsed = Inl e \<and> is_Exception e"
  then show "molecular_complexity MolFromSmiles AddHs smiles = Inr nan_result"
    by (intro molecular_complexity_caught [of _ _ _ e]) (simp_all add: try_body_def)
next
  show "nan_result = \<lparr>cm = NaN, cm_star = NaN, cse = NaN\<rparr>"
    by (simp add: nan_result_def)
next
  assume "build_neighbors mol = Inl e'"
  then show "calculate_molecular_complexity mol = Inl e'"
    by (rule build_failure_propagates)
next
  assume "\<not> valid_mol mol"
  then show "calculate_molecular_complexity mol = Inl IndexError"
    by (simp add: calculate_eq)
qed

theorem C5_parse_failures_witness:
  "molecular_complexity parse_raises add_hs_strict ''C(C'' = Inr \<lparr>cm = NaN, cm_star = NaN, cse = NaN\<rparr> \<and>
   molecular_complexity parse_none add_hs_strict ''C(C'' = Inr \<lparr>cm = NaN, cm_star = NaN, cse = NaN\<rparr> \<and>
   build_neighbors dangling = Inl IndexError \<and>
   calculate_molecular_complexity dangling = Inl IndexError"
proof -
  note c5 = C5_parse_failures [where smiles = "''C(C''" and mol = dangling and e' = IndexError]
  have build: "build_neighbors dangling = Inl IndexError"
    by (simp add: build_neighbors_eq valid_mol_def dangling_def)
  have "molecular_complexity parse_raises add_hs_strict ''C(C'' = Inr nan_result"
    using c5 [where MolFromSmiles = parse_raises and AddHs = add_hs_strict
        and e = "ToolkitError ''parse''" and parsed = None]
    by (simp add: parse_raises_def)
  moreover have "molecular_complexity parse_none add_hs_strict ''C(C'' = Inr nan_result"
    using c5 [where MolFromSmiles = parse_none and AddHs = add_hs_strict
        and e = "ToolkitError ''ArgumentError''" and parsed = None]
    by (simp add: parse_none_def add_hs_strict_def)
  moreover have "calculate_molecular_complexity dangling = Inl IndexError"
    using c5 [where MolFromSmiles = parse_none and AddHs = add_hs_strict
        and e = "ToolkitError ''ArgumentError''" and parsed = None] build
    by simp
  ultimately show ?thesis using build by (simp add: nan_result_def)
qed

text \<open>
  Claim C9. The string-notation entry point turns every \<^verbatim>\<open>Exception\<close> raised inside the
  \<^verbatim>\<open>try\<close> block into the NaN triple, also one raised by the graph-level computation on
  the molecule that hydrogen addition returned; whatever it propagates is not an
  \<^verbatim>\<open>Exception\<close>.
\<close>

theorem C9_catch_all:
  "(try_body MolFromSmiles AddHs smiles = Inl e \<and> is_Exception e \<longrightarrow>
      molecular_complexity MolFromSmiles AddHs smiles = Inr nan_result) \<and>
   (MolFromSmiles smiles = Inr parsed \<and> AddHs parsed = Inr mol \<and>
    calculate_molecular_complexity mol = Inl e \<longrightarrow>
      molecular_complexity MolFromSmiles AddHs smiles = Inr nan_result) \<and>
   (\<forall>e'. molecular_complexity MolFromSmiles AddHs smiles = Inl e' \<longrightarrow> \<not> is_Exception e')"
proof (intro conjI impI allI)
  assume "try_body MolFromSmiles AddHs smiles = Inl e \<and> is_Exception e"
  then show "molecular_complexity MolFromSmiles AddHs smiles = Inr nan_result"
    by (simp add: molecular_complexity_caught)
next
  assume core: "MolFromSmiles smiles = Inr parsed \<and> AddHs parsed = Inr mol \<and>
    calculate_molecular_complexity mol = Inl e"
  then have "calculate_molecular_complexity mol = Inl e" by simp
  then have "e = IndexError" by (rule calculate_raises_only_IndexError)
  with core show "molecular_complexity MolFromSmiles AddHs smiles = Inr nan_result"
    by (intro molecular_complexity_caught [of _ _ _ e]) (simp_all add: try_body_def)
next
  fix e'
  assume "molecular_complexity MolFromSmiles AddHs smiles = Inl e'"
  then show "\<not> is_Exception e'"
    by (auto simp: molecular_complexity_def split: sum.splits if_splits)
qed

theorem C9_catch_all_witness:
  "calculate_molecular_complexity dangling = Inl IndexError \<and>
   molecular_complexity parse_oxygen add_hs_dangling ''O'' = Inr \<lparr>cm = NaN, cm_star = NaN, cse = NaN\<rparr>"
proof -
  have "molecular_complexity parse_oxygen add_hs_dangling ''O'' = Inr nan_result"
    using C9_catch_all [where MolFromSmiles = parse_oxygen and AddHs = add_hs_dangling
        and smiles = "''O''" and e = IndexError and mol = dangling
        and parsed = "Some [\<lparr>GetSymbol = ''O'', GetTotalDegree = 2, GetTotalNumHs = 2, GetNeighbors = []\<rparr>]"]
      dangling_fails
    by (simp add: parse_oxygen_def add_hs_dangling_def)
  with dangling_fails show ?thesis by (simp add: nan_result_def)
qed

section \<open>Invariance under renumbering\<close>








subsection \<open>Permutations as lists\<close>








subsection \<open>The renumbered molecule\<close>










subsection \<open>The scores depend on the multiset of path lists only\<close>







end
